theory Spec2Isabelle
  imports Main "HOL-Library.Sublist"
begin

section \<open>Python values, errors and outcomes\<close>

text \<open>
  The exceptions that the modelled code can raise.  A stateful operation returns the state it
  leaves behind together with an outcome: either the returned value or the raised exception.
\<close>

datatype py_error =
  TypeError | OSError | ValueError | SyntaxError | IndexError | UnboundLocalError
  | AttributeError

datatype 'a outcome = Return 'a | Raise py_error

section \<open>Strings\<close>

text \<open>
  \<open>s.find(sub)\<close>: the lowest index at which \<open>sub\<close> occurs in \<open>s\<close>, or \<open>-1\<close>.
\<close>

fun find_from :: "string \<Rightarrow> string \<Rightarrow> nat \<Rightarrow> int" where
  "find_from sub [] i = (if sub = [] then int i else - 1)"
| "find_from sub (c # cs) i =
     (if prefix sub (c # cs) then int i else find_from sub cs (Suc i))"

definition py_find :: "string \<Rightarrow> string \<Rightarrow> int" where
  "py_find s sub = find_from sub s 0"

text \<open>
  The fields of a text between separators, as \<open>s.split(sep)\<close> gives them for a separator of
  one character: a text with \<open>n\<close> separators has \<open>n + 1\<close> fields, empty ones included.
\<close>

fun split_on :: "(char \<Rightarrow> bool) \<Rightarrow> string \<Rightarrow> string list" where
  "split_on P [] = [[]]"
| "split_on P (c # cs) =
     (if P c then [] # split_on P cs
      else (case split_on P cs of [] \<Rightarrow> [[c]] | w # ws \<Rightarrow> (c # w) # ws))"

section \<open>The file system\<close>

text \<open>
  A file system is a tree: a regular file with its content, or a directory with its entries in
  the order \<open>os.listdir\<close> reports them.  A path is the list of its components, so that
  \<open>os.path.join(main, elem)\<close> is \<open>main @ [elem]\<close>, \<open>os.path.dirname\<close> is \<open>butlast\<close> and
  \<open>os.path.basename\<close> is \<open>last\<close>.
\<close>

datatype node = File string | Dir "(string \<times> node) list"

type_synonym path = "string list"

fun lookup :: "node \<Rightarrow> path \<Rightarrow> node option" where
  "lookup n [] = Some n"
| "lookup (File c) (x # p) = None"
| "lookup (Dir es) (x # p) = (case map_of es x of None \<Rightarrow> None | Some n \<Rightarrow> lookup n p)"

definition isdir :: "node \<Rightarrow> path \<Rightarrow> bool" where
  "isdir fs p = (case lookup fs p of Some (Dir es) \<Rightarrow> True | _ \<Rightarrow> False)"

definition isfile :: "node \<Rightarrow> path \<Rightarrow> bool" where
  "isfile fs p = (case lookup fs p of Some (File c) \<Rightarrow> True | _ \<Rightarrow> False)"

definition listdir :: "node \<Rightarrow> path \<Rightarrow> string list" where
  "listdir fs p = (case lookup fs p of Some (Dir es) \<Rightarrow> map fst es | _ \<Rightarrow> [])"

text \<open>
  \<open>set_entry x r es\<close> changes the entry named \<open>x\<close> of a directory: \<open>Some n\<close> puts \<open>n\<close> in its
  place, or adds it at the end of the listing when there is none, and \<open>None\<close> removes it.
\<close>

fun replace_entry :: "string \<Rightarrow> node \<Rightarrow> (string \<times> node) list \<Rightarrow> (string \<times> node) list" where
  "replace_entry x n [] = [(x, n)]"
| "replace_entry x n ((y, m) # es) =
     (if x = y then (y, n) # es else (y, m) # replace_entry x n es)"

definition set_entry ::
    "string \<Rightarrow> node option \<Rightarrow> (string \<times> node) list \<Rightarrow> (string \<times> node) list" where
  "set_entry x r es =
     (case r of None \<Rightarrow> filter (\<lambda>e. fst e \<noteq> x) es | Some n \<Rightarrow> replace_entry x n es)"

text \<open>
  \<open>alter f fs p\<close> walks down to the directory that holds \<open>p\<close> and lets \<open>f\<close> decide, from what
  is found under the last component, what to put there.  It raises \<open>OSError\<close> when the parent
  of \<open>p\<close> is missing or is not a directory, and for the root itself.
\<close>

fun alter :: "(node option \<Rightarrow> py_error + node option) \<Rightarrow> node \<Rightarrow> path \<Rightarrow> py_error + node" where
  "alter f n [] = Inl OSError"
| "alter f (File c) (x # p) = Inl OSError"
| "alter f (Dir es) [x] =
     (case f (map_of es x) of
        Inl e \<Rightarrow> Inl e
      | Inr r \<Rightarrow> Inr (Dir (set_entry x r es)))"
| "alter f (Dir es) (x # y # p) =
     (case map_of es x of
        None \<Rightarrow> Inl OSError
      | Some n \<Rightarrow>
          (case alter f n (y # p) of
             Inl e \<Rightarrow> Inl e
           | Inr n' \<Rightarrow> Inr (Dir (set_entry x (Some n') es))))"

text \<open>
  \<open>os.mkdir(path)\<close> creates one directory and raises \<open>OSError\<close> when the path exists already.
\<close>

definition mkdir :: "node \<Rightarrow> path \<Rightarrow> py_error + node" where
  "mkdir fs p =
     alter (\<lambda>found. case found of None \<Rightarrow> Inr (Some (Dir [])) | Some n \<Rightarrow> Inl OSError) fs p"

text \<open>
  \<open>io.open(path, 'w')\<close>, one or several \<open>write\<close> and the end of the \<open>with\<close> block: the file is
  created or replaced, with the text written as its content.  Opening a directory raises.
\<close>

definition write_file :: "node \<Rightarrow> path \<Rightarrow> string \<Rightarrow> py_error + node" where
  "write_file fs p c =
     alter (\<lambda>found. case found of Some (Dir es) \<Rightarrow> Inl OSError | _ \<Rightarrow> Inr (Some (File c))) fs p"



text \<open>
  The path that \<open>os.path.join(folder, name)\<close> denotes.  The operating system walks the
  components of \<open>name\<close>, from the root when \<open>name\<close> starts with a slash and from \<open>folder\<close>
  otherwise: an empty component and \<open>.\<close> stay in the directory, \<open>..\<close> goes to its parent, and
  every component but the last must lead to a directory.  \<open>None\<close> stands for a walk that fails.
  A name that is not empty and holds no slash and no dots only is one more component.
\<close>

fun resolve :: "node \<Rightarrow> path \<Rightarrow> string list \<Rightarrow> path option" where
  "resolve fs p [] = Some p"
| "resolve fs p (c # cs) =
     (if c = [] \<or> c = ''.'' then (if isdir fs p then resolve fs p cs else None)
      else if c = ''..'' then (if isdir fs p then resolve fs (butlast p) cs else None)
      else if cs = [] then Some (p @ [c])
      else if isdir fs (p @ [c]) then resolve fs (p @ [c]) cs else None)"

definition locate :: "node \<Rightarrow> path \<Rightarrow> string \<Rightarrow> path option" where
  "locate fs folder name =
     (if name \<noteq> [] \<and> hd name = CHR ''/''
      then resolve fs [] (split_on (\<lambda>c. c = CHR ''/'') name)
      else resolve fs folder (split_on (\<lambda>c. c = CHR ''/'') name))"

text \<open>
  \<open>io.open(os.path.join(folder, name), 'w')\<close> with what is written until the file is closed.
\<close>

definition open_w :: "node \<Rightarrow> path \<Rightarrow> string \<Rightarrow> string \<Rightarrow> py_error + node" where
  "open_w fs folder name content =
     (case locate fs folder name of
        None \<Rightarrow> Inl OSError
      | Some p \<Rightarrow> write_file fs p content)"

text \<open>The size of the tree found at a path; the recursion below descends along it.\<close>

fun nsize :: "node \<Rightarrow> nat" where
  "nsize (File c) = 1"
| "nsize (Dir es) = Suc (sum_list (map (\<lambda>e. nsize (snd e)) es))"

definition size_at :: "node \<Rightarrow> path \<Rightarrow> nat" where
  "size_at fs p = (case lookup fs p of None \<Rightarrow> 0 | Some n \<Rightarrow> nsize n)"

lemma nsize_entry: "map_of es x = Some n \<Longrightarrow> nsize n < nsize (Dir es)"
proof (induction es)
  case Nil
  then show ?case by simp
next
  case (Cons e es)
  then show ?case by (cases e) (auto split: if_splits)
qed

lemma lookup_snoc:
  "lookup fs (p @ [x]) =
     (case lookup fs p of Some (Dir es) \<Rightarrow> map_of es x | _ \<Rightarrow> None)"
proof (induction fs p rule: lookup.induct)
  case (1 n)
  then show ?case by (cases n) (auto split: option.splits)
next
  case (2 c x p)
  then show ?case by simp
next
  case (3 es x p)
  then show ?case by (auto split: option.splits)
qed

lemma size_at_child: "isdir fs (p @ [x]) \<Longrightarrow> size_at fs (p @ [x]) < size_at fs p"
  by (auto simp: isdir_def size_at_def lookup_snoc simp del: nsize.simps
      dest: nsize_entry split: option.splits node.splits)

section \<open>configuration.py: search\_folder\_recursively\<close>

text \<open>
  \<open>EXTENSION\<close> is imported from \<open>constants\<close>, which is not part of the sources at hand; it is
  the parameter \<open>ext\<close>.  The calls to the logger have no effect on the result and are left out.

  The function follows the source: the test \<open>os.path.isdir(main)\<close>, the loop over
  \<open>os.listdir(main)\<close> with its two accumulators, the recursive call on every sub-directory
  that is not hidden, and \<open>os.mkdir(main)\<close> in the other branch.  The recursive call is reached
  only for a path that is a directory, where the function does not touch the file system, so the
  loop carries the file system it started with.
\<close>

function search_folder_recursively ::
    "string \<Rightarrow> node \<Rightarrow> path \<Rightarrow> node \<times> (string list \<times> path list) outcome"
  and search_loop ::
    "string \<Rightarrow> node \<Rightarrow> path \<Rightarrow> string list \<Rightarrow> string list \<Rightarrow> path list \<Rightarrow>
       (string list \<times> path list) outcome"
where
  "search_folder_recursively ext fs main =
     (if isdir fs main then (fs, search_loop ext fs main (listdir fs main) [] [])
      else (case mkdir fs main of
              Inl e \<Rightarrow> (fs, Raise e)
            | Inr fs' \<Rightarrow> (fs', Return ([], []))))"
| "search_loop ext fs main [] notebooks folders = Return (notebooks, folders)"
| "search_loop ext fs main (elem # elems) notebooks folders =
     (if isfile fs (main @ [elem]) then
        (if py_find elem ext \<noteq> - 1
         then search_loop ext fs main elems (notebooks @ [elem]) folders
         else search_loop ext fs main elems notebooks folders)
      else if isdir fs (main @ [elem]) then
        (case elem of
           [] \<Rightarrow> Raise IndexError
         | c # _ \<Rightarrow>
             if c \<noteq> CHR ''.'' then
               (case snd (search_folder_recursively ext fs (main @ [elem])) of
                  Raise e \<Rightarrow> Raise e
                | Return (temp, _) \<Rightarrow>
                    if temp \<noteq> []
                    then search_loop ext fs main elems notebooks (folders @ [main @ [elem]])
                    else search_loop ext fs main elems notebooks folders)
             else search_loop ext fs main elems notebooks folders)
      else search_loop ext fs main elems notebooks folders)"
  by pat_completeness auto
termination
  by (relation "inv_image (less_than <*lex*> less_than)
        (\<lambda>a. case a of
           Inl (ext, fs, main) \<Rightarrow> (size_at fs main, Suc (length (listdir fs main)))
         | Inr (ext, fs, main, elems, notebooks, folders) \<Rightarrow> (size_at fs main, length elems))")
    (auto simp: size_at_child)










section \<open>More of Python's strings\<close>

text \<open>
  A character stands for a code point below 256.  The case mappings of Python are tables of
  the Unicode database, which give a text for each character: the title-case or lower-case form
  of one character can have several.  They are not part of the sources; the functions that use
  them take them as \<open>case_tables\<close>.
\<close>

record case_tables =
  title_case :: "char \<Rightarrow> string"
  lower_case :: "char \<Rightarrow> string"

text \<open>
  \<open>s.capitalize()\<close>: the first character in title case, the others in lower case.
\<close>

definition capitalize :: "case_tables \<Rightarrow> string \<Rightarrow> string" where
  "capitalize u s =
     (case s of [] \<Rightarrow> [] | c # cs \<Rightarrow> title_case u c @ concat (map (lower_case u) cs))"

text \<open>\<open>s.rfind(c)\<close> for one character: the highest index at which it occurs, or \<open>-1\<close>.\<close>

fun rfind_from :: "char \<Rightarrow> string \<Rightarrow> nat \<Rightarrow> int \<Rightarrow> int" where
  "rfind_from c [] i found = found"
| "rfind_from c (x # xs) i found = rfind_from c xs (Suc i) (if x = c then int i else found)"

definition py_rfind :: "string \<Rightarrow> char \<Rightarrow> int" where
  "py_rfind s c = rfind_from c s 0 (- 1)"

text \<open>
  \<open>os.path.splitext\<close>: the split is at the last dot of the last path component, unless that
  component has nothing but dots before it.  The loop is the one that skips the leading dots.
\<close>

function splitext_loop :: "string \<Rightarrow> nat \<Rightarrow> nat \<Rightarrow> string \<times> string" where
  "splitext_loop p filenameIndex dotIndex =
     (if filenameIndex < dotIndex then
        (if p ! filenameIndex \<noteq> CHR ''.'' then (take dotIndex p, drop dotIndex p)
         else splitext_loop p (Suc filenameIndex) dotIndex)
      else (p, []))"
  by pat_completeness auto
termination
  by (relation "measure (\<lambda>(p, filenameIndex, dotIndex). dotIndex - filenameIndex)") auto

definition splitext :: "string \<Rightarrow> string \<times> string" where
  "splitext p =
     (let sepIndex = py_rfind p (CHR ''/''); dotIndex = py_rfind p (CHR ''.'')
      in if dotIndex > sepIndex then splitext_loop p (nat (sepIndex + 1)) (nat dotIndex)
         else (p, []))"

text \<open>\<open>sep.join(parts)\<close>.\<close>

fun py_join :: "string \<Rightarrow> string list \<Rightarrow> string" where
  "py_join sep [] = []"
| "py_join sep [x] = x"
| "py_join sep (x # y # ys) = x @ sep @ py_join sep (y # ys)"

text \<open>
  \<open>s.replace(old, new)\<close>: the occurrences of \<open>old\<close> are replaced from left to right, and the
  search goes on after each replaced occurrence.  An empty \<open>old\<close> matches before every character
  and at the end.
\<close>

function py_replace :: "string \<Rightarrow> string \<Rightarrow> string \<Rightarrow> string" where
  "py_replace old new s =
     (if old = [] then new @ concat (map (\<lambda>c. c # new) s)
      else if s = [] then []
      else if prefix old s then new @ py_replace old new (drop (length old) s)
      else hd s # py_replace old new (tl s))"
  by pat_completeness auto
termination
  by (relation "measure (\<lambda>(old, new, s). length s)") auto

declare py_replace.simps [simp del]

text \<open>\<open>s[:-n]\<close> for \<open>n = len(...)\<close>: with \<open>n = 0\<close> the slice \<open>s[:0]\<close> is empty.\<close>

definition slice_to_neg :: "string \<Rightarrow> nat \<Rightarrow> string" where
  "slice_to_neg s n = (if n = 0 then [] else take (length s - n) s)"

abbreviation LF :: char where "LF \<equiv> CHR 0x0A"
abbreviation CR :: char where "CR \<equiv> CHR 0x0D"

section \<open>The state of the application\<close>

text \<open>
  A path that the code builds with \<open>os.path.join(folder, name)\<close> is kept as its two parts; the
  file system finds what it denotes (\<open>locate\<close>).
\<close>

type_synonym pypath = "path \<times> string"

text \<open>
  The class \<open>Information\<close> of configuration.py.  Its constructor sets the first five attributes;
  \<open>display_empty\<close> and \<open>use_TOC\<close> are read in frames.py and are set by code that is not part of
  the sources at hand.  \<open>folders\<close> holds what \<open>os.path.join\<close> returned, and the name that the
  dialog for a new folder has left at its end.
\<close>

record information =
  root :: path
  level :: path
  notebooks :: "string list"
  folders :: "path list"
  current_notebook :: string
  display_empty :: bool
  use_TOC :: bool

text \<open>
  A tag button of the preview: its text, and the three properties of a \<open>QPushButton\<close> that
  the code reads and writes.
\<close>

record button =
  label :: string
  flat :: bool
  checkable :: bool
  checked :: bool

text \<open>
  The state: the file system, the shared \<open>Information\<close>, the texts of the message boxes shown
  so far, the value saved in the settings, and the attributes of the \<open>Preview\<close> frame.  \<open>page\<close>
  is the file that the web view displays.
\<close>

record state =
  disk :: node
  info :: information
  dialogs :: "string list"
  saved_display_empty :: "bool option"
  website_root :: path
  temp_root :: path
  extracted_tags :: "(string \<times> nat) list"
  filters :: "string list"
  remaining_tags :: "(string \<times> nat) list"
  tagButtons :: "(string \<times> button) list"
  page :: "pypath option"

section \<open>Calling search\_folder\_recursively\<close>

text \<open>
  \<open>def search_folder_recursively(logger, main)\<close> has two parameters and no default value: a
  call binds its positional arguments to them and raises \<open>TypeError\<close>, before the body runs,
  when their number is not two.
\<close>

datatype arg = LoggerArg | PathArg path | BoolArg bool

definition call_search_folder_recursively ::
    "string \<Rightarrow> node \<Rightarrow> arg list \<Rightarrow> node \<times> (string list \<times> path list) outcome" where
  "call_search_folder_recursively ext fs args =
     (case args of
        [logger, PathArg main] \<Rightarrow> search_folder_recursively ext fs main
      | _ \<Rightarrow> (fs, Raise TypeError))"

text \<open>\<open>initialise\<close>, with the home directory that \<open>os.path.expanduser\<close> returns.\<close>

definition initialise ::
    "string \<Rightarrow> node \<Rightarrow> path \<Rightarrow> node \<times> (path \<times> string list \<times> path list) outcome" where
  "initialise ext fs home =
     (let main = home @ [''.noteorganiser''] in
      case call_search_folder_recursively ext fs [LoggerArg, PathArg main] of
        (fs', Raise e) \<Rightarrow> (fs', Raise e)
      | (fs', Return (nbs, fds)) \<Rightarrow> (fs', Return (main, nbs, fds)))"

section \<open>frames.py: Shelves\<close>

text \<open>
  The methods take the state after the dialog has run, and what the dialog returned (\<open>ok\<close>) or
  what the user answers to a question.  \<open>refresh\<close> redraws the shelves from \<open>info\<close> and changes
  nothing of the state.
\<close>

definition createNotebook :: "case_tables \<Rightarrow> bool \<Rightarrow> state \<Rightarrow> state \<times> unit outcome" where
  "createNotebook u ok s =
     (if ok then
        (case notebooks (info s) of
           [] \<Rightarrow> (s, Raise IndexError)
         | _ # _ \<Rightarrow>
             let desired_name = last (notebooks (info s));
                 file_name = desired_name;
                 clean_name = fst (splitext desired_name)
             in case open_w (disk s) (level (info s)) file_name
                       (capitalize u clean_name @ [LF] @ concat (map (\<lambda>_. ''='') clean_name)
                          @ [LF, LF]) of
                  Inl e \<Rightarrow> (s, Raise e)
                | Inr fs' \<Rightarrow> (s\<lparr>disk := fs'\<rparr>, Return ()))
      else (s, Return ()))"

text \<open>
  The three methods that browse, and \<open>createFolder\<close>: each calls
  \<open>search_folder_recursively(self.log, path, self.info.display_empty)\<close> and assigns the pair it
  returns.
\<close>

definition browse :: "string \<Rightarrow> path \<Rightarrow> state \<Rightarrow> state \<times> (string list \<times> path list) outcome" where
  "browse ext folder_path s =
     (case call_search_folder_recursively ext (disk s)
             [LoggerArg, PathArg folder_path, BoolArg (display_empty (info s))] of
        (fs', Raise e) \<Rightarrow> (s\<lparr>disk := fs'\<rparr>, Raise e)
      | (fs', Return (nbs, fds)) \<Rightarrow>
          (s\<lparr>disk := fs', info := (info s)\<lparr>notebooks := nbs, folders := fds\<rparr>\<rparr>,
           Return (nbs, fds)))"

definition createFolder :: "string \<Rightarrow> bool \<Rightarrow> state \<Rightarrow> state \<times> unit outcome" where
  "createFolder ext ok s =
     (if ok then
        (case folders (info s) of
           [] \<Rightarrow> (s, Raise IndexError)
         | _ # _ \<Rightarrow>
             let desired_name = last (folders (info s));
                 folder_name = desired_name;
                 s1 = (case mkdir (disk s) (level (info s) @ folder_name) of
                         Inl e \<Rightarrow> s
                       | Inr fs' \<Rightarrow> s\<lparr>disk := fs'\<rparr>);
                 folder_path = root (info s1) @ folder_name
             in case browse ext folder_path s1 of
                  (s2, Raise e) \<Rightarrow> (s2, Raise e)
                | (s2, Return r) \<Rightarrow> (s2\<lparr>info := (info s2)\<lparr>level := folder_path\<rparr>\<rparr>, Return ()))
      else (s, Return ()))"

definition toggleDisplayEmpty :: "string \<Rightarrow> state \<Rightarrow> state \<times> unit outcome" where
  "toggleDisplayEmpty ext s =
     (let s1 = s\<lparr>info := (info s)\<lparr>display_empty := \<not> display_empty (info s)\<rparr>\<rparr>
      in case browse ext (level (info s1)) s1 of
           (s2, Raise e) \<Rightarrow> (s2, Raise e)
         | (s2, Return r) \<Rightarrow>
             (s2\<lparr>saved_display_empty := Some (display_empty (info s2))\<rparr>, Return ()))"

definition folderClicked :: "string \<Rightarrow> string \<Rightarrow> state \<Rightarrow> state \<times> unit outcome" where
  "folderClicked ext sender_label s =
     (let folder_path = root (info s) @ [sender_label]
      in case browse ext folder_path s of
           (s2, Raise e) \<Rightarrow> (s2, Raise e)
         | (s2, Return r) \<Rightarrow> (s2\<lparr>info := (info s2)\<lparr>level := folder_path\<rparr>\<rparr>, Return ()))"

definition upFolder :: "string \<Rightarrow> state \<Rightarrow> state \<times> unit outcome" where
  "upFolder ext s =
     (let folder_path = butlast (level (info s))
      in case browse ext folder_path s of
           (s2, Raise e) \<Rightarrow> (s2, Raise e)
         | (s2, Return r) \<Rightarrow> (s2\<lparr>info := (info s2)\<lparr>level := folder_path\<rparr>\<rparr>, Return ()))"



section \<open>frames.py: Preview\<close>

text \<open>
  What \<open>Preview\<close> uses and the sources at hand do not hold: the constant \<open>EXTENSION\<close>,
  \<open>tp.from_notes_to_markdown(path, input_tags)\<close>, which reads the notebook and returns the lines
  of markdown and the remaining tags or raises, and \<open>pypandoc\<close>, which turns the markdown of
  the temporary file into html (with a table of contents when asked).
\<close>

record externals =
  EXTENSION :: string
  from_notes_to_markdown ::
    "node \<Rightarrow> pypath \<Rightarrow> string list \<Rightarrow> (string list \<times> (string \<times> nat) list) outcome"
  pandoc :: "bool \<Rightarrow> string \<Rightarrow> string"

text \<open>
  \<open>os.path.basename\<close> of a joined path: what follows the last slash, which is a slash of
  \<open>name\<close> or the one that joins.
\<close>

definition basename :: "pypath \<Rightarrow> string" where
  "basename path = drop (nat (py_rfind (snd path) (CHR ''/'') + 1)) (snd path)"

text \<open>\<open>initLogic\<close>: the two folders are created when they are missing.\<close>

definition ensure_dir :: "path \<Rightarrow> state \<Rightarrow> state \<times> unit outcome" where
  "ensure_dir p s =
     (if \<not> isdir (disk s) p then
        (case mkdir (disk s) p of
           Inl e \<Rightarrow> (s, Raise e)
         | Inr fs' \<Rightarrow> (s\<lparr>disk := fs'\<rparr>, Return ()))
      else (s, Return ()))"

definition initLogic :: "state \<Rightarrow> state \<times> unit outcome" where
  "initLogic s =
     (let s1 = s\<lparr>website_root := level (info s) @ [''.website''],
                  temp_root := level (info s) @ [''.temp'']\<rparr>
      in case ensure_dir (website_root s1) s1 of
           (s2, Raise e) \<Rightarrow> (s2, Raise e)
         | (s2, Return _) \<Rightarrow>
             (case ensure_dir (temp_root s2) s2 of
                (s3, Raise e) \<Rightarrow> (s3, Raise e)
              | (s3, Return _) \<Rightarrow> (s3\<lparr>extracted_tags := [], filters := []\<rparr>, Return ())))"

text \<open>
  \<open>initUI\<close> makes a new web view, which displays nothing yet, and one button for each
  extracted tag: not flat, checkable, and not checked as every new button.
\<close>

definition initUI :: "state \<Rightarrow> state" where
  "initUI s =
     s\<lparr>page := None,
       tagButtons :=
         map (\<lambda>(key, value).
                (key, \<lparr>label = key, flat = False, checkable = True, checked = False\<rparr>))
           (extracted_tags s)\<rparr>"

definition setWebpage :: "pypath \<Rightarrow> state \<Rightarrow> state" where
  "setWebpage url s = s\<lparr>page := Some url\<rparr>"

text \<open>
  \<open>convert\<close>.  An \<open>IndexError\<close> or \<open>UnboundLocalError\<close> of the conversion shows a message box;
  \<open>ok\<close> is what \<open>self.popup.exec_()\<close> returns.  When it is false, the handler ends without
  raising and the method goes on with \<open>markdown\<close> unbound: the temporary file is opened, and so
  emptied, before \<open>'\n'.join(markdown)\<close> raises.  The handler of \<open>ValueError\<close> reads
  \<open>e.message\<close> while it prepares its message box: an exception of Python 3 has no such
  attribute, and \<open>AttributeError\<close> leaves the method before the box is shown.
\<close>

definition unbound_markdown ::
    "pypath \<Rightarrow> state \<Rightarrow> state \<times> (pypath \<times> (string \<times> nat) list) outcome" where
  "unbound_markdown temp_path s =
     (case open_w (disk s) (fst temp_path) (snd temp_path) [] of
        Inl e \<Rightarrow> (s, Raise e)
      | Inr fs' \<Rightarrow> (s\<lparr>disk := fs'\<rparr>, Raise UnboundLocalError))"

definition convert ::
    "externals \<Rightarrow> bool \<Rightarrow> pypath \<Rightarrow> string list \<Rightarrow> state \<Rightarrow>
       state \<times> (pypath \<times> (string \<times> nat) list) outcome" where
  "convert env ok path input_tags s =
     (let base0 = slice_to_neg (basename path) (length (EXTENSION env));
          base = (if input_tags \<noteq> [] then base0 @ ''_'' @ py_join ''_'' input_tags else base0);
          temp_path = (temp_root s, base @ EXTENSION env);
          url = (website_root s, base @ ''.html'')
      in case from_notes_to_markdown env (disk s) path input_tags of
           Raise e \<Rightarrow>
             if e = IndexError \<or> e = UnboundLocalError then
               (let s1 = s\<lparr>dialogs := dialogs s
                           @ [''The conversion to markdown has unexpectedly failed!'']\<rparr>
                in if ok then (s1, Raise ValueError) else unbound_markdown temp_path s1)
             else if e = ValueError then (s, Raise AttributeError)
             else (s, Raise e)
         | Return (markdown, remaining) \<Rightarrow>
             (case open_w (disk s) (fst temp_path) (snd temp_path) (py_join [LF] markdown) of
                Inl e \<Rightarrow> (s, Raise e)
              | Inr fs1 \<Rightarrow>
                  let html = pandoc env (use_TOC (info s)) (py_join [LF] markdown);
                      html' = py_replace [CR, LF] [LF] html
                  in case open_w fs1 (fst url) (snd url) html' of
                       Inl e \<Rightarrow> (s\<lparr>disk := fs1\<rparr>, Raise e)
                     | Inr fs2 \<Rightarrow> (s\<lparr>disk := fs2\<rparr>, Return (url, remaining))))"

definition loadNotebook :: "externals \<Rightarrow> bool \<Rightarrow> string \<Rightarrow> state \<Rightarrow> state \<times> bool outcome" where
  "loadNotebook env ok notebook s =
     (case initLogic s of
        (s1, Raise e) \<Rightarrow> (s1, Raise e)
      | (s1, Return _) \<Rightarrow>
          let s2 = s1\<lparr>info := (info s1)\<lparr>current_notebook := notebook\<rparr>\<rparr> in
          case convert env ok (level (info s2), notebook) [] s2 of
            (s3, Raise e) \<Rightarrow>
              if e = ValueError \<or> e = SyntaxError then (s3, Return False) else (s3, Raise e)
          | (s3, Return (url, found)) \<Rightarrow>
              (setWebpage url (initUI (s3\<lparr>extracted_tags := found\<rparr>)), Return True))"

text \<open>
  The two setters of a button.  \<open>QAbstractButton::setCheckable\<close> does nothing when the
  property has the value already, and otherwise also resets \<open>checked\<close>.
\<close>

definition setFlat :: "bool \<Rightarrow> button \<Rightarrow> button" where
  "setFlat v b = b\<lparr>flat := v\<rparr>"

definition setCheckable :: "bool \<Rightarrow> button \<Rightarrow> button" where
  "setCheckable v b = (if checkable b = v then b else b\<lparr>checkable := v, checked := False\<rparr>)"

definition disableButton :: "button \<Rightarrow> button" where
  "disableButton b = setCheckable False (setFlat True b)"

definition enableButton :: "button \<Rightarrow> button" where
  "enableButton b = setCheckable True (setFlat False b)"

text \<open>
  The end of \<open>addFilter\<close> and of \<open>reload\<close>: the remaining tags are stored, every button is
  enabled or disabled, and the page is displayed.
\<close>

definition grey_out :: "pypath \<Rightarrow> (string \<times> nat) list \<Rightarrow> state \<Rightarrow> state" where
  "grey_out url remaining s =
     setWebpage url
       (s\<lparr>remaining_tags := remaining,
          tagButtons :=
            map (\<lambda>(key, button).
                   (key, if key \<in> fst ` set remaining then enableButton button
                         else disableButton button))
              (tagButtons s)\<rparr>)"

text \<open>
  \<open>addFilter\<close>, with the sender given by its position among the tag buttons.
  \<open>self.filters.index\<close> raises \<open>ValueError\<close> for a text that is not in the list.
\<close>

definition addFilter :: "externals \<Rightarrow> bool \<Rightarrow> nat \<Rightarrow> state \<Rightarrow> state \<times> unit outcome" where
  "addFilter env ok i s =
     (let sender = snd (tagButtons s ! i) in
      if \<not> flat sender then
        (if \<not> checked sender \<and> label sender \<notin> set (filters s) then (s, Raise ValueError)
         else
           let s1 = s\<lparr>filters :=
                       (if checked sender then filters s @ [label sender]
                        else remove1 (label sender) (filters s))\<rparr>
           in case convert env ok (level (info s1), current_notebook (info s1))
                     (filters s1) s1 of
                (s2, Raise e) \<Rightarrow> (s2, Raise e)
              | (s2, Return (url, remaining)) \<Rightarrow> (grey_out url remaining s2, Return ()))
      else (s, Return ()))"

definition reload :: "externals \<Rightarrow> bool \<Rightarrow> state \<Rightarrow> state \<times> unit outcome" where
  "reload env ok s =
     (case convert env ok (level (info s), current_notebook (info s)) (filters s) s of
        (s2, Raise e) \<Rightarrow> (s2, Raise e)
      | (s2, Return (url, remaining)) \<Rightarrow> (grey_out url remaining s2, Return ()))"

text \<open>
  A click on the tag button at position \<open>i\<close>: a checkable button changes its \<open>checked\<close>
  state, then the signal \<open>clicked\<close> runs \<open>addFilter\<close> with this button as sender.
\<close>

definition click :: "externals \<Rightarrow> bool \<Rightarrow> nat \<Rightarrow> state \<Rightarrow> state \<times> unit outcome" where
  "click env ok i s =
     (if i < length (tagButtons s) then
        (let (key, b) = tagButtons s ! i;
             b' = (if checkable b then b\<lparr>checked := \<not> checked b\<rparr> else b)
         in addFilter env ok i (s\<lparr>tagButtons := (tagButtons s)[i := (key, b')]\<rparr>))
      else (s, Return ()))"

text \<open>A sequence of clicks, up to the first one that raises.\<close>

fun clicks :: "externals \<Rightarrow> bool \<Rightarrow> nat list \<Rightarrow> state \<Rightarrow> state \<times> unit outcome" where
  "clicks env ok [] s = (s, Return ())"
| "clicks env ok (i # is) s =
     (case click env ok i s of
        (s', Raise e) \<Rightarrow> (s', Raise e)
      | (s', Return _) \<Rightarrow> clicks env ok is s')"

section \<open>The note format, from the specification\<close>

text \<open>
  \<open>noteorganiser.text_processing\<close>, which parses the notebooks and filters them, is not part of
  the sources at hand.  The definitions of this section are written from the specification.
\<close>

text \<open>
  Modelled from the spec: the Entry Model, which text\_processing.py would hold (section 3,
  ``Entry --- one journal post'': a title, the tags in the order of their insertion, and the
  lines of the body).
\<close>

record entry =
  title :: string
  tags :: "string list"
  body :: "string list"

text \<open>
  Modelled from the spec: the Tag Filter Engine of the missing text\_processing.py (section
  4.3).  An entry survives when its tags hold every selected tag; the surviving entries keep the
  order of the notebook; the map counts, for every tag of a surviving entry, the surviving
  entries that hold it, in the order in which the tags are first seen (section 9).
\<close>

definition survives :: "string list \<Rightarrow> entry \<Rightarrow> bool" where
  "survives selected e = list_all (\<lambda>t. t \<in> set (tags e)) selected"

definition surviving_entries :: "entry list \<Rightarrow> string list \<Rightarrow> entry list" where
  "surviving_entries entries selected = filter (survives selected) entries"

fun bump :: "string \<Rightarrow> (string \<times> nat) list \<Rightarrow> (string \<times> nat) list" where
  "bump t [] = [(t, 1)]"
| "bump t ((k, n) # m) = (if k = t then (k, Suc n) # m else (k, n) # bump t m)"

definition tag_cardinality_map :: "entry list \<Rightarrow> (string \<times> nat) list" where
  "tag_cardinality_map es = foldl (\<lambda>m e. foldl (\<lambda>m t. bump t m) m (remdups (tags e))) [] es"

definition filter_entries ::
    "entry list \<Rightarrow> string list \<Rightarrow> entry list \<times> (string \<times> nat) list" where
  "filter_entries entries selected =
     (surviving_entries entries selected,
      tag_cardinality_map (surviving_entries entries selected))"

text \<open>
  Modelled from the spec: the Markdown Emitter of the missing text\_processing.py (section
  4.4): for each entry the title, an underline of the length of the title, a tag line only if
  there are tags, a blank separator and the lines of the body, with a blank line between
  consecutive entries.  The underline character and the form of the tag line are those of the
  scenario of section 8: dashes, and \<open>Tags:\<close> followed by the tags separated by a comma and a
  space.
\<close>

definition tag_line :: "string list \<Rightarrow> string" where
  "tag_line ts = ''Tags: '' @ py_join '', '' ts"

definition emit_entry :: "entry \<Rightarrow> string list" where
  "emit_entry e =
     [title e, replicate (length (title e)) (CHR ''-'')]
     @ (if tags e \<noteq> [] then [tag_line (tags e)] else [])
     @ [[]] @ body e"

fun emit_lines :: "entry list \<Rightarrow> string list" where
  "emit_lines [] = []"
| "emit_lines [e] = emit_entry e"
| "emit_lines (e # e' # es) = emit_entry e @ [[]] @ emit_lines (e' # es)"

definition emit :: "entry list \<Rightarrow> string" where
  "emit entries = py_join [LF] (emit_lines entries)"

text \<open>
  Modelled from the spec: the Parser of the missing text\_processing.py (section 4.2).  The
  text is split into lines, and the lines into blocks separated by one or more blank lines.  A
  block whose first line is followed by an underline line (a repeated single character) is a
  new entry when the underline has the length of the title, and a \<open>SyntaxError\<close> otherwise; a tag
  line of the block gives the tags, and the other lines after the underline are the body.  Any
  other block is attached to the body of the preceding entry.  A leading block with no tag line
  is the header of the notebook and is left out.
\<close>

definition split_lines :: "string \<Rightarrow> string list" where
  "split_lines text = split_on (\<lambda>c. c = LF) text"

definition is_blank :: "string \<Rightarrow> bool" where
  "is_blank l = list_all (\<lambda>c. c = CHR '' '' \<or> c = CHR 0x09 \<or> c = CR) l"

text \<open>The blocks; \<open>cur\<close> holds, last line first, the lines of the block that is being read.\<close>

fun blocks_from :: "string list \<Rightarrow> string list \<Rightarrow> string list list" where
  "blocks_from cur [] = (if cur = [] then [] else [rev cur])"
| "blocks_from cur (l # ls) =
     (if is_blank l then (if cur = [] then blocks_from [] ls else rev cur # blocks_from [] ls)
      else blocks_from (l # cur) ls)"

definition blocks :: "string list \<Rightarrow> string list list" where
  "blocks ls = blocks_from [] ls"

definition is_underline :: "string \<Rightarrow> bool" where
  "is_underline u = (u \<noteq> [] \<and> list_all (\<lambda>c. c = hd u) u)"

definition is_tag_line :: "string \<Rightarrow> bool" where
  "is_tag_line l = prefix ''Tags:'' l"

definition first_only :: "string list \<Rightarrow> string list" where
  "first_only ws = rev (remdups (rev ws))"

definition parse_tags :: "string \<Rightarrow> string list" where
  "parse_tags l =
     first_only
       (filter (\<lambda>w. w \<noteq> [])
          (split_on (\<lambda>c. c = CHR '','' \<or> c = CHR '' '' \<or> c = CHR 0x09) (drop 5 l)))"

text \<open>
  What a block is: no entry (\<open>None\<close>), or an entry together with the fact that it has a tag
  line.
\<close>

fun parse_block :: "string list \<Rightarrow> py_error + (entry \<times> bool) option" where
  "parse_block (t # u # rest) =
     (if is_underline u then
        (if length u = length t then
           (case find is_tag_line rest of
              None \<Rightarrow> Inr (Some (\<lparr>title = t, tags = [], body = rest\<rparr>, False))
            | Some l \<Rightarrow>
                Inr (Some (\<lparr>title = t, tags = parse_tags l, body = remove1 l rest\<rparr>, True)))
         else Inl SyntaxError)
      else Inr None)"
| "parse_block b = Inr None"

text \<open>
  The blocks in turn; \<open>leading\<close> holds for the first block only, and \<open>acc\<close> holds the entries
  read so far, last entry first.
\<close>

fun parse_blocks :: "bool \<Rightarrow> entry list \<Rightarrow> string list list \<Rightarrow> py_error + entry list" where
  "parse_blocks leading acc [] = Inr (rev acc)"
| "parse_blocks leading acc (b # bs) =
     (case parse_block b of
        Inl e \<Rightarrow> Inl e
      | Inr (Some (e, has_tag_line)) \<Rightarrow>
          if leading \<and> \<not> has_tag_line then parse_blocks False acc bs
          else parse_blocks False (e # acc) bs
      | Inr None \<Rightarrow>
          (case acc of
             [] \<Rightarrow> parse_blocks False acc bs
           | e # acc' \<Rightarrow> parse_blocks False (e\<lparr>body := body e @ b\<rparr> # acc') bs))"

definition parse :: "string \<Rightarrow> py_error + entry list" where
  "parse text = parse_blocks True [] (blocks (split_lines text))"

text \<open>
  Modelled from the spec: \<open>from_notes_to_markdown\<close> of the missing text\_processing.py, for a
  notebook that parses into \<open>entries\<close>: the entries are filtered by the selected tags (section
  4.3) and the surviving ones are emitted (section 4.4), as the control flow of section 2 has it.
\<close>

definition notes_to_markdown ::
    "entry list \<Rightarrow> node \<Rightarrow> pypath \<Rightarrow> string list \<Rightarrow>
       (string list \<times> (string \<times> nat) list) outcome" where
  "notes_to_markdown entries fs path input_tags =
     (case filter_entries entries input_tags of
        (surviving, remaining) \<Rightarrow> Return (emit_lines surviving, remaining))"

text \<open>
  Modelled from the spec: \<open>from_notes_to_markdown\<close> of the missing text\_processing.py as a
  whole: the text of the notebook is read, parsed (section 4.2, a \<open>SyntaxError\<close> when the parser
  fails), filtered and emitted.  A path that is no readable file raises.
\<close>

definition read_notes ::
    "node \<Rightarrow> pypath \<Rightarrow> string list \<Rightarrow> (string list \<times> (string \<times> nat) list) outcome" where
  "read_notes fs path input_tags =
     (case locate fs (fst path) (snd path) of
        None \<Rightarrow> Raise OSError
      | Some p \<Rightarrow>
          (case lookup fs p of
             Some (File content) \<Rightarrow>
               (case parse content of
                  Inl e \<Rightarrow> Raise e
                | Inr entries \<Rightarrow> notes_to_markdown entries fs path input_tags)
           | _ \<Rightarrow> Raise OSError))"

section \<open>Predicates used in the statements\<close>

text \<open>Every carriage return of the text is followed by a line feed.\<close>

fun paired_CR :: "string \<Rightarrow> bool" where
  "paired_CR [] = True"
| "paired_CR [c] = (c \<noteq> CR)"
| "paired_CR (c # d # cs) = (if c = CR then d = LF \<and> paired_CR cs else paired_CR (d # cs))"

text \<open>
  The buttons agree with a map of remaining tags: a button whose key is in the map is enabled
  (not flat, checkable), and any other button is disabled (flat, not checkable).
\<close>

definition buttons_match :: "(string \<times> nat) list \<Rightarrow> (string \<times> button) list \<Rightarrow> bool" where
  "buttons_match remaining bs =
     list_all (\<lambda>(key, b).
        (key \<in> fst ` set remaining \<longrightarrow> \<not> flat b \<and> checkable b)
      \<and> (key \<notin> fst ` set remaining \<longrightarrow> flat b \<and> \<not> checkable b)) bs"

text \<open>Every button carries, as its text, the key under which it is kept.\<close>

definition labelled :: "(string \<times> button) list \<Rightarrow> bool" where
  "labelled bs = list_all (\<lambda>(key, b). label b = key) bs"

text \<open>
  A state to run the methods on: two notebooks in the main folder, one of them empty, and a
  folder with a notebook of its own.
\<close>

definition example_state :: state where
  "example_state =
     \<lparr>disk = Dir [(''home'', Dir [(''.noteorganiser'',
               Dir [(''work.md'', File ''Work''), (''empty.md'', File []),
                    (''travel'', Dir [(''japan.md'', File ''Japan'')])])])],
      info = \<lparr>root = [''home'', ''.noteorganiser''], level = [''home'', ''.noteorganiser''],
               notebooks = [''work.md'', ''empty.md''],
               folders = [[''home'', ''.noteorganiser'', ''travel'']],
               current_notebook = [], display_empty = False, use_TOC = False\<rparr>,
      dialogs = [], saved_display_empty = None, website_root = [], temp_root = [],
      extracted_tags = [], filters = [], remaining_tags = [], tagButtons = [], page = None\<rparr>"

text \<open>
  The two entries of the scenario of the specification, a converter that ends its lines the
  Windows way, and the externals built from them.
\<close>

definition example_entries :: "entry list" where
  "example_entries =
     [\<lparr>title = ''First Entry'', tags = [''work'', ''urgent''], body = [''Finish the report.'']\<rparr>,
      \<lparr>title = ''Second Entry'', tags = [''personal''], body = [''Buy groceries.'']\<rparr>]"

definition example_pandoc :: "bool \<Rightarrow> string \<Rightarrow> string" where
  "example_pandoc toc markdown = ''<body>'' @ [CR, LF] @ markdown @ [CR, LF] @ ''</body>''"

definition example_env :: externals where
  "example_env =
     \<lparr>EXTENSION = ''.md'', from_notes_to_markdown = notes_to_markdown example_entries,
      pandoc = example_pandoc\<rparr>"

text \<open>
  A notebook with the text of the scenario of the specification, and one whose header has an
  underline shorter than its title; the externals that read them as the specification says.
\<close>

definition scenario_text :: string where
  "scenario_text =
     py_join [LF]
       [''My Notebook'', ''==========='', [],
        ''First Entry'', ''-----------'', ''Tags: work, urgent'', [], ''Finish the report.'', [],
        ''Second Entry'', ''------------'', ''Tags: personal'', [], ''Buy groceries.'', []]"

definition broken_text :: string where
  "broken_text = py_join [LF] [''Broken'', ''==='', []]"

definition preview_state :: state where
  "preview_state =
     \<lparr>disk = Dir [(''home'', Dir [(''.noteorganiser'',
               Dir [(''journal.md'', File scenario_text), (''broken.md'', File broken_text)])])],
      info = \<lparr>root = [''home'', ''.noteorganiser''], level = [''home'', ''.noteorganiser''],
               notebooks = [''journal.md'', ''broken.md''], folders = [],
               current_notebook = [], display_empty = False, use_TOC = False\<rparr>,
      dialogs = [], saved_display_empty = None, website_root = [], temp_root = [],
      extracted_tags = [], filters = [], remaining_tags = [], tagButtons = [], page = None\<rparr>"

definition spec_env :: externals where
  "spec_env =
     \<lparr>EXTENSION = ''.md'', from_notes_to_markdown = read_notes, pandoc = example_pandoc\<rparr>"

text \<open>
  The case tables of Python 3 on the ASCII characters and on the sharp s (code point 223), whose
  title-case form is \<open>Ss\<close>.  The table leaves every other character as it is; it is used on
  names made of ASCII characters and the sharp s.
\<close>

definition ascii_upper :: "char \<Rightarrow> char" where
  "ascii_upper c =
     (let n = (of_char c :: nat) in if 97 \<le> n \<and> n \<le> 122 then char_of (n - 32) else c)"

definition ascii_lower :: "char \<Rightarrow> char" where
  "ascii_lower c =
     (let n = (of_char c :: nat) in if 65 \<le> n \<and> n \<le> 90 then char_of (n + 32) else c)"

definition sharp_s_tables :: case_tables where
  "sharp_s_tables =
     \<lparr>title_case = (\<lambda>c. if c = CHR 0xDF then ''Ss'' else [ascii_upper c]),
      lower_case = (\<lambda>c. [ascii_lower c])\<rparr>"

section \<open>Properties of search\_folder\_recursively\<close>





lemma map_of_replace_entry: "map_of (replace_entry x n es) x = Some n"
  by (induction es) auto

lemma map_of_set_entry: "map_of (set_entry x r es) x = r"
proof (cases r)
  case None
  have "map_of (filter (\<lambda>e. fst e \<noteq> x) es) x = None"
    by (induction es) auto
  with None show ?thesis by (simp add: set_entry_def)
next
  case (Some n)
  then show ?thesis by (simp add: set_entry_def map_of_replace_entry)
qed

lemma lookup_single: "lookup (Dir es) [x] = map_of es x"
  by (cases "map_of es x") simp_all

text \<open>What \<open>alter\<close> leaves at the path is what \<open>f\<close> returned.\<close>

lemma alter_result:
  "alter f fs p = Inr fs' \<Longrightarrow> \<exists>found. f found = Inr (lookup fs' p)"
proof (induction f fs p arbitrary: fs' rule: alter.induct)
  case (1 f n)
  then show ?case by simp
next
  case (2 f c x p)
  then show ?case by simp
next
  case (3 f es x)
  then obtain r where r: "f (map_of es x) = Inr r" and fs': "fs' = Dir (set_entry x r es)"
    by (auto split: sum.splits)
  from fs' have "lookup fs' [x] = r"
    by (simp only: lookup_single map_of_set_entry)
  with r show ?case by auto
next
  case (4 f es x y p)
  then show ?case
    by (auto simp: map_of_set_entry split: option.splits sum.splits)
qed



lemma write_file_content:
  assumes "write_file fs p c = Inr fs'"
  shows "lookup fs' p = Some (File c)"
proof -
  from assms obtain found where
    "(case found of Some (Dir es) \<Rightarrow> Inl OSError | _ \<Rightarrow> Inr (Some (File c))) =
       Inr (lookup fs' p)"
    unfolding write_file_def by (blast dest: alter_result)
  then show ?thesis
    by (cases found) (auto split: node.splits)
qed





text \<open>
  Claim C2.  A file of a scanned directory is listed as a notebook if and only if its name ends
  with \<open>EXTENSION\<close>.  The test in the code is \<open>elem.find(EXTENSION) != -1\<close>: it holds as soon
  as \<open>EXTENSION\<close> occurs anywhere in the name.  With \<open>EXTENSION = '.md'\<close>, the backup file
  \<open>notes.md.bak\<close> is listed, although its name does not end with \<open>.md\<close>.
\<close>

theorem search_lists_name_not_ending_with_extension:
  "search_folder_recursively ''.md'' (Dir [(''notes.md.bak'', File ''x'')]) [] =
     (Dir [(''notes.md.bak'', File ''x'')], Return ([''notes.md.bak''], []))
   \<and> \<not> suffix ''.md'' ''notes.md.bak''"
  by (simp add: isdir_def isfile_def listdir_def py_find_def suffix_def)







section \<open>Properties of the shelves\<close>

text \<open>
  Claim C8, as stated: each of \<open>createFolder\<close>, \<open>toggleDisplayEmpty\<close>, \<open>folderClicked\<close> and
  \<open>upFolder\<close> raises \<open>TypeError\<close> whenever it is executed.  \<open>createFolder\<close> reaches its call
  of \<open>search_folder_recursively\<close> only under \<open>if ok:\<close>; when the dialog is cancelled it
  returns and nothing is raised.
\<close>

theorem createFolder_cancelled_returns:
  "createFolder ''.md'' False example_state = (example_state, Return ())
   \<and> snd (createFolder ''.md'' False example_state) \<noteq> Raise TypeError"
  by (simp add: createFolder_def)

text \<open>
  Claim C8, amended.  \<open>search_folder_recursively\<close> has two parameters and the four call sites
  of frames.py pass three arguments.  \<open>toggleDisplayEmpty\<close>, \<open>folderClicked\<close> and \<open>upFolder\<close>
  raise \<open>TypeError\<close> whenever they are executed, and so does \<open>createFolder\<close> when its dialog is
  accepted and has left a name in \<open>info.folders\<close> (with no name there, it raises \<open>IndexError\<close>
  before).  When the dialog is cancelled, \<open>createFolder\<close> returns and changes nothing.
\<close>

theorem folder_navigation_raises_TypeError:
  "snd (toggleDisplayEmpty ext s) = Raise TypeError
   \<and> snd (folderClicked ext sender_label s) = Raise TypeError
   \<and> snd (upFolder ext s) = Raise TypeError
   \<and> snd (createFolder ext True s) =
        (if folders (info s) = [] then Raise IndexError else Raise TypeError)
   \<and> createFolder ext False s = (s, Return ())"
  by (simp add: toggleDisplayEmpty_def folderClicked_def upFolder_def createFolder_def
      browse_def call_search_folder_recursively_def Let_def split: list.splits sum.splits)



section \<open>Properties of createNotebook\<close>

text \<open>What \<open>createNotebook\<close> writes when it returns.\<close>

lemma write_file_at: "open_w fs folder name content = Inr fs' \<Longrightarrow>
    \<exists>p. locate fs folder name = Some p \<and> lookup fs' p = Some (File content)"
  by (auto simp: open_w_def write_file_content split: option.splits)

lemma createNotebook_content:
  assumes "createNotebook u True s = (s', Return ())"
  shows "\<exists>p. locate (disk s) (level (info s)) (last (notebooks (info s))) = Some p
           \<and> lookup (disk s') p =
               Some (File (capitalize u (fst (splitext (last (notebooks (info s))))) @ [LF]
                 @ replicate (length (fst (splitext (last (notebooks (info s)))))) (CHR ''='')
                 @ [LF, LF]))"
proof -
  let ?name = "last (notebooks (info s))"
  let ?content = "capitalize u (fst (splitext ?name)) @ [LF]
                 @ replicate (length (fst (splitext ?name))) (CHR ''='') @ [LF, LF]"
  from assms have "open_w (disk s) (level (info s)) ?name ?content = Inr (disk s')"
    by (auto simp: createNotebook_def Let_def map_replicate_const
        split: if_splits list.splits sum.splits)
  then show ?thesis by (rule write_file_at)
qed

text \<open>
  Claim C6.  The content that \<open>createNotebook\<close> writes is a title line, an underline of \<open>=\<close>
  of the length of the title, and a blank line.  The code writes one \<open>=\<close> for each character
  of the name without its extension, under a title that is this name capitalized: the two
  lengths differ as soon as \<open>capitalize\<close> changes the number of characters.  In Python 3 the
  sharp s (the code point 223) becomes \<open>Ss\<close>: for the name made of the sharp s and
  \<open>eta.md\<close> the file
  holds the five characters \<open>Sseta\<close> over four \<open>=\<close>.
\<close>

theorem createNotebook_underline_shorter_than_title:
  "snd (createNotebook sharp_s_tables True
         (example_state\<lparr>info := (info example_state)
            \<lparr>notebooks := [''work.md'', ''empty.md'', CHR 0xDF # ''eta.md'']\<rparr>\<rparr>)) = Return ()
   \<and> lookup (disk (fst (createNotebook sharp_s_tables True
         (example_state\<lparr>info := (info example_state)
            \<lparr>notebooks := [''work.md'', ''empty.md'', CHR 0xDF # ''eta.md'']\<rparr>\<rparr>))))
         [''home'', ''.noteorganiser'', CHR 0xDF # ''eta.md'']
       = Some (File (''Sseta'' @ [LF] @ ''===='' @ [LF, LF]))
   \<and> length ''Sseta'' \<noteq> length ''===='' "
  by code_simp

text \<open>
  The parser written from the specification takes this content for a title with an underline
  of the wrong length.
\<close>

lemma sharp_s_header_rejected: "parse (''Sseta'' @ [LF] @ ''===='' @ [LF, LF]) = Inl SyntaxError"
  by code_simp

text \<open>An empty name denotes the folder itself, which cannot be opened for writing.\<close>

lemma createNotebook_empty_name:
  "snd (createNotebook sharp_s_tables True
         (example_state\<lparr>info := (info example_state)\<lparr>notebooks := [[]]\<rparr>\<rparr>)) = Raise OSError"
  by code_simp

section \<open>Properties of the preview: line endings\<close>

text \<open>
  The only normalisation of \<open>convert\<close> is \<open>html.replace('\r\n', '\n')\<close> on what the converter
  returns.  It removes the carriage returns of the text exactly when each of them is followed
  by a line feed.
\<close>

lemma py_replace_CRLF_Nil: "py_replace [CR, LF] [LF] [] = []"
  by (subst py_replace.simps) simp

lemma py_replace_CRLF_pair:
  "py_replace [CR, LF] [LF] (CR # LF # cs) = LF # py_replace [CR, LF] [LF] cs"
  by (subst py_replace.simps) simp

lemma py_replace_CRLF_other:
  "\<not> prefix [CR, LF] (c # cs) \<Longrightarrow>
     py_replace [CR, LF] [LF] (c # cs) = c # py_replace [CR, LF] [LF] cs"
  by (subst py_replace.simps) auto

lemma paired_CR_replaced: "paired_CR h \<Longrightarrow> CR \<notin> set (py_replace [CR, LF] [LF] h)"
proof (induction h rule: paired_CR.induct)
  case 1
  then show ?case by (simp add: py_replace_CRLF_Nil)
next
  case (2 c)
  then show ?case by (simp add: py_replace_CRLF_other py_replace_CRLF_Nil)
next
  case (3 c d cs)
  then show ?case
    by (cases "c = CR") (simp_all add: py_replace_CRLF_pair py_replace_CRLF_other)
qed

lemma unpaired_CR_stays: "\<not> paired_CR h \<Longrightarrow> CR \<in> set (py_replace [CR, LF] [LF] h)"
proof (induction h rule: paired_CR.induct)
  case 1
  then show ?case by simp
next
  case (2 c)
  then show ?case by (simp add: py_replace_CRLF_other py_replace_CRLF_Nil)
next
  case (3 c d cs)
  show ?case
  proof (cases "c = CR")
    case True
    show ?thesis
    proof (cases "d = LF")
      case True
      with \<open>c = CR\<close> 3 show ?thesis by (simp add: py_replace_CRLF_pair)
    next
      case False
      with \<open>c = CR\<close> show ?thesis by (simp add: py_replace_CRLF_other)
    qed
  next
    case False
    with 3 show ?thesis by (simp add: py_replace_CRLF_other)
  qed
qed

lemma no_CR_unchanged: "CR \<notin> set h \<Longrightarrow> py_replace [CR, LF] [LF] h = h"
  by (induction h) (auto simp: py_replace_CRLF_Nil py_replace_CRLF_other)

section \<open>Properties of the preview: a failed load\<close>

lemma ensure_dir_fields:
  "ensure_dir p s = (s', r) \<Longrightarrow> s' = s\<lparr>disk := disk s'\<rparr>"
  by (auto simp: ensure_dir_def split: if_splits sum.splits)

lemma initLogic_fields:
  assumes "initLogic s = (s1, Return ())"
  shows "page s1 = page s \<and> tagButtons s1 = tagButtons s \<and> info s1 = info s
       \<and> extracted_tags s1 = [] \<and> filters s1 = [] \<and> dialogs s1 = dialogs s
       \<and> remaining_tags s1 = remaining_tags s"
proof -
  let ?s0 = "s\<lparr>website_root := level (info s) @ [''.website''],
                 temp_root := level (info s) @ [''.temp'']\<rparr>"
  from assms obtain s2 s3 where
    a: "ensure_dir (website_root ?s0) ?s0 = (s2, Return ())"
    and b: "ensure_dir (temp_root s2) s2 = (s3, Return ())"
    and c: "s1 = s3\<lparr>extracted_tags := [], filters := []\<rparr>"
    by (auto simp: initLogic_def Let_def split: prod.splits outcome.splits)
  from ensure_dir_fields [OF a] have "s2 = ?s0\<lparr>disk := disk s2\<rparr>" .
  moreover from ensure_dir_fields [OF b] have "s3 = s2\<lparr>disk := disk s3\<rparr>" .
  ultimately have "s3 = ?s0\<lparr>disk := disk s3\<rparr>"
    by (cases s2, cases s3) simp
  with c have "s1 = ?s0\<lparr>disk := disk s3, extracted_tags := [], filters := []\<rparr>"
    by simp
  then show ?thesis by (cases s) simp
qed

text \<open>
  The failures of the conversion that leave \<open>convert\<close> as \<open>ValueError\<close> or \<open>SyntaxError\<close>: a
  \<open>SyntaxError\<close> of \<open>from_notes_to_markdown\<close> itself, which no handler of \<open>convert\<close> catches,
  and an \<open>IndexError\<close> or \<open>UnboundLocalError\<close> whose message box is acknowledged.
\<close>

lemma convert_Raise:
  assumes "from_notes_to_markdown env (disk s) path input_tags = Raise e"
    and "e = SyntaxError \<or> (ok \<and> (e = IndexError \<or> e = UnboundLocalError))"
  shows "\<exists>msgs. convert env ok path input_tags s =
           (s\<lparr>dialogs := dialogs s @ msgs\<rparr>,
            Raise (if e = SyntaxError then SyntaxError else ValueError))"
proof (cases "e = SyntaxError")
  case True
  with assms(1) have "convert env ok path input_tags s = (s\<lparr>dialogs := dialogs s @ []\<rparr>,
            Raise (if e = SyntaxError then SyntaxError else ValueError))"
    by (simp add: convert_def Let_def)
  then show ?thesis by blast
next
  case False
  with assms have "convert env ok path input_tags s =
       (s\<lparr>dialogs := dialogs s @ [''The conversion to markdown has unexpectedly failed!'']\<rparr>,
        Raise (if e = SyntaxError then SyntaxError else ValueError))"
    by (auto simp: convert_def Let_def)
  then show ?thesis by blast
qed

text \<open>
  Claim C3, as stated: when the conversion fails, \<open>loadNotebook\<close> returns \<open>False\<close> and leaves
  the displayed page and \<open>extracted_tags\<close> unchanged.  \<open>loadNotebook\<close> starts with
  \<open>self.initLogic()\<close>, which empties \<open>extracted_tags\<close> and \<open>filters\<close> before the conversion is
  tried.  Here the notebook of the scenario is loaded, which extracts three tags; then a
  notebook whose underline is shorter than its title is loaded, the parser signals a
  \<open>SyntaxError\<close>, \<open>loadNotebook\<close> returns \<open>False\<close>, and the three tags are gone.
\<close>

theorem loadNotebook_failure_empties_extracted_tags:
  "snd (loadNotebook spec_env True ''journal.md'' preview_state) = Return True
   \<and> extracted_tags (fst (loadNotebook spec_env True ''journal.md'' preview_state))
       = [(''work'', 1), (''urgent'', 1), (''personal'', 1)]
   \<and> snd (loadNotebook spec_env True ''broken.md''
          (fst (loadNotebook spec_env True ''journal.md'' preview_state))) = Return False
   \<and> extracted_tags (fst (loadNotebook spec_env True ''broken.md''
          (fst (loadNotebook spec_env True ''journal.md'' preview_state)))) = []"
  by code_simp

text \<open>
  Claim C3, amended.  When the folders of \<open>initLogic\<close> are there or can be made, and the
  conversion fails with an error that leaves \<open>convert\<close> as \<open>ValueError\<close> or \<open>SyntaxError\<close>,
  \<open>loadNotebook\<close> returns \<open>False\<close>; the displayed page, the tag buttons and the remaining tags
  are as before and nothing of the conversion is written, but \<open>extracted_tags\<close> and \<open>filters\<close>
  are empty, as \<open>initLogic\<close> has left them.
\<close>

theorem loadNotebook_failed_conversion:
  assumes init: "initLogic s = (s1, Return ())"
    and fails: "from_notes_to_markdown env (disk s1) (level (info s), notebook) [] = Raise e"
    and kind: "e = SyntaxError \<or> (ok \<and> (e = IndexError \<or> e = UnboundLocalError))"
  shows "(let s' = fst (loadNotebook env ok notebook s) in
            snd (loadNotebook env ok notebook s) = Return False
          \<and> page s' = page s \<and> tagButtons s' = tagButtons s
          \<and> remaining_tags s' = remaining_tags s \<and> disk s' = disk s1
          \<and> extracted_tags s' = [] \<and> filters s' = []
          \<and> current_notebook (info s') = notebook)"
proof -
  let ?s2 = "s1\<lparr>info := (info s1)\<lparr>current_notebook := notebook\<rparr>\<rparr>"
  note f = initLogic_fields [OF init]
  from f fails have "from_notes_to_markdown env (disk ?s2) (level (info ?s2), notebook) []
      = Raise e"
    by simp
  from convert_Raise [OF this kind] obtain msgs where
    c: "convert env ok (level (info ?s2), notebook) [] ?s2 =
           (?s2\<lparr>dialogs := dialogs ?s2 @ msgs\<rparr>,
            Raise (if e = SyntaxError then SyntaxError else ValueError))"
    by blast
  have "loadNotebook env ok notebook s =
          (?s2\<lparr>dialogs := dialogs ?s2 @ msgs\<rparr>, Return False)"
    using init c by (simp add: loadNotebook_def Let_def)
  with f show ?thesis by (simp add: Let_def)
qed

theorem loadNotebook_failed_conversion_witness:
  "snd (initLogic (fst (loadNotebook spec_env True ''journal.md'' preview_state))) = Return ()
   \<and> from_notes_to_markdown spec_env
        (disk (fst (initLogic (fst (loadNotebook spec_env True ''journal.md'' preview_state)))))
        (level (info (fst (loadNotebook spec_env True ''journal.md'' preview_state))),
         ''broken.md'') []
       = Raise SyntaxError
   \<and> snd (loadNotebook spec_env True ''broken.md''
          (fst (loadNotebook spec_env True ''journal.md'' preview_state))) = Return False
   \<and> page (fst (loadNotebook spec_env True ''broken.md''
          (fst (loadNotebook spec_env True ''journal.md'' preview_state))))
       = Some ([''home'', ''.noteorganiser'', ''.website''], ''journal.html'')
   \<and> map fst (tagButtons (fst (loadNotebook spec_env True ''broken.md''
          (fst (loadNotebook spec_env True ''journal.md'' preview_state)))))
       = [''work'', ''urgent'', ''personal'']
   \<and> extracted_tags (fst (loadNotebook spec_env True ''broken.md''
          (fst (loadNotebook spec_env True ''journal.md'' preview_state)))) = []
   \<and> filters (fst (loadNotebook spec_env True ''broken.md''
          (fst (loadNotebook spec_env True ''journal.md'' preview_state)))) = []"
proof -
  let ?s = "fst (loadNotebook spec_env True ''journal.md'' preview_state)"
  have r: "snd (initLogic ?s) = Return ()" by code_simp
  then have init: "initLogic ?s = (fst (initLogic ?s), Return ())"
    by (metis prod.collapse)
  have fails: "from_notes_to_markdown spec_env (disk (fst (initLogic ?s)))
      (level (info ?s), ''broken.md'') [] = Raise SyntaxError"
    by code_simp
  have p: "page ?s = Some ([''home'', ''.noteorganiser'', ''.website''], ''journal.html'')"
    by code_simp
  have b: "map fst (tagButtons ?s) = [''work'', ''urgent'', ''personal'']"
    by code_simp
  from loadNotebook_failed_conversion [OF init fails, of True] r fails p b
  show ?thesis by (simp add: Let_def)
qed

section \<open>Properties of the preview: the tag buttons\<close>

lemma convert_Return:
  assumes "convert env ok p t s = (s2, Return (url, rem))"
  shows "(\<exists>md. from_notes_to_markdown env (disk s) p t = Return (md, rem))
       \<and> filters s2 = filters s \<and> tagButtons s2 = tagButtons s \<and> info s2 = info s
       \<and> page s2 = page s \<and> extracted_tags s2 = extracted_tags s"
  using assms
  by (auto simp: convert_def Let_def unbound_markdown_def
      split: outcome.splits sum.splits if_splits)

lemma enableButton_props:
  "\<not> flat (enableButton b) \<and> checkable (enableButton b) \<and> label (enableButton b) = label b"
  by (simp add: enableButton_def setCheckable_def setFlat_def)

lemma disableButton_props:
  "flat (disableButton b) \<and> \<not> checkable (disableButton b) \<and> label (disableButton b) = label b"
  by (simp add: disableButton_def setCheckable_def setFlat_def)

lemma grey_out_match:
  "buttons_match remaining (tagButtons (grey_out url remaining s))
   \<and> remaining_tags (grey_out url remaining s) = remaining
   \<and> filters (grey_out url remaining s) = filters s
   \<and> map fst (tagButtons (grey_out url remaining s)) = map fst (tagButtons s)
   \<and> (labelled (tagButtons s) \<longrightarrow> labelled (tagButtons (grey_out url remaining s)))"
  by (auto simp: grey_out_def setWebpage_def buttons_match_def labelled_def list_all_iff
      enableButton_props disableButton_props split: prod.splits)

lemma initUI_labelled: "labelled (tagButtons (initUI s))"
  by (auto simp: initUI_def labelled_def list_all_iff)

text \<open>
  Claim C4.  After a filter evaluation of \<open>addFilter\<close> (the sender is not flat and the method
  returns) or of \<open>reload\<close>, the stored remaining tags are those that the conversion has
  returned for the current filters, and every tag button whose key is among them is enabled
  (not flat, checkable) while every other tag button is disabled (flat, not checkable).  The
  buttons are the same as before, and each still carries its key as its text.
\<close>

theorem tag_buttons_follow_remaining_tags:
  "(\<not> flat (snd (tagButtons s ! i)) \<and> addFilter env ok i s = (s', Return ()) \<longrightarrow>
      buttons_match (remaining_tags s') (tagButtons s')
    \<and> map fst (tagButtons s') = map fst (tagButtons s)
    \<and> (labelled (tagButtons s) \<longrightarrow> labelled (tagButtons s'))
    \<and> (\<exists>md. from_notes_to_markdown env (disk s)
               (level (info s), current_notebook (info s)) (filters s')
             = Return (md, remaining_tags s')))
   \<and> (reload env ok s = (s'', Return ()) \<longrightarrow>
      buttons_match (remaining_tags s'') (tagButtons s'')
    \<and> map fst (tagButtons s'') = map fst (tagButtons s)
    \<and> (labelled (tagButtons s) \<longrightarrow> labelled (tagButtons s''))
    \<and> (\<exists>md. from_notes_to_markdown env (disk s)
               (level (info s), current_notebook (info s)) (filters s'')
             = Return (md, remaining_tags s'')))"
proof (intro conjI impI)
  assume a: "\<not> flat (snd (tagButtons s ! i)) \<and> addFilter env ok i s = (s', Return ())"
  let ?sender = "snd (tagButtons s ! i)"
  let ?s1 = "s\<lparr>filters := (if checked ?sender then filters s @ [label ?sender]
                              else remove1 (label ?sender) (filters s))\<rparr>"
  from a obtain s2 url remaining where
    c: "convert env ok (level (info ?s1), current_notebook (info ?s1)) (filters ?s1) ?s1
          = (s2, Return (url, remaining))"
    and s': "s' = grey_out url remaining s2"
    by (auto simp: addFilter_def Let_def split: if_splits prod.splits outcome.splits)
  from convert_Return [OF c] obtain md where
    md: "from_notes_to_markdown env (disk ?s1)
           (level (info ?s1), current_notebook (info ?s1)) (filters ?s1) = Return (md, remaining)"
    and f2: "filters s2 = filters ?s1" and b2: "tagButtons s2 = tagButtons ?s1"
    by blast
  note g = grey_out_match [of remaining url s2]
  from s' g show "buttons_match (remaining_tags s') (tagButtons s')" by simp
  from s' g b2 show "map fst (tagButtons s') = map fst (tagButtons s)" by simp
  from s' g b2 show "labelled (tagButtons s')" if "labelled (tagButtons s)" using that by simp
  from s' g md f2
  show "\<exists>md. from_notes_to_markdown env (disk s)
               (level (info s), current_notebook (info s)) (filters s')
             = Return (md, remaining_tags s')"
    by auto
next
  assume a: "reload env ok s = (s'', Return ())"
  then obtain s2 url remaining where
    c: "convert env ok (level (info s), current_notebook (info s)) (filters s) s
          = (s2, Return (url, remaining))"
    and s'': "s'' = grey_out url remaining s2"
    by (auto simp: reload_def split: prod.splits outcome.splits)
  from convert_Return [OF c] obtain md where
    md: "from_notes_to_markdown env (disk s)
           (level (info s), current_notebook (info s)) (filters s) = Return (md, remaining)"
    and f2: "filters s2 = filters s" and b2: "tagButtons s2 = tagButtons s"
    by blast
  note g = grey_out_match [of remaining url s2]
  from s'' g show "buttons_match (remaining_tags s'') (tagButtons s'')" by simp
  from s'' g b2 show "map fst (tagButtons s'') = map fst (tagButtons s)" by simp
  from s'' g b2 show "labelled (tagButtons s'')" if "labelled (tagButtons s)" using that by simp
  from s'' g md f2
  show "\<exists>md. from_notes_to_markdown env (disk s)
               (level (info s), current_notebook (info s)) (filters s'')
             = Return (md, remaining_tags s'')"
    by auto
qed


theorem tag_buttons_follow_remaining_tags_witness:
  "\<not> flat (snd (tagButtons (fst (loadNotebook spec_env True ''journal.md'' preview_state)
        \<lparr>tagButtons := (tagButtons (fst (loadNotebook spec_env True ''journal.md'' preview_state)))
           [0 := (''work'', \<lparr>label = ''work'', flat = False, checkable = True, checked = True\<rparr>)]\<rparr>) ! 0))
   \<and> snd (addFilter spec_env True 0
        (fst (loadNotebook spec_env True ''journal.md'' preview_state)
        \<lparr>tagButtons := (tagButtons (fst (loadNotebook spec_env True ''journal.md'' preview_state)))
           [0 := (''work'', \<lparr>label = ''work'', flat = False, checkable = True, checked = True\<rparr>)]\<rparr>))
       = Return ()
   \<and> remaining_tags (fst (addFilter spec_env True 0
        (fst (loadNotebook spec_env True ''journal.md'' preview_state)
        \<lparr>tagButtons := (tagButtons (fst (loadNotebook spec_env True ''journal.md'' preview_state)))
           [0 := (''work'', \<lparr>label = ''work'', flat = False, checkable = True, checked = True\<rparr>)]\<rparr>)))
       = [(''work'', 1), (''urgent'', 1)]
   \<and> map (\<lambda>(key, b). (key, label b, flat b, checkable b)) (tagButtons (fst (addFilter spec_env True 0
        (fst (loadNotebook spec_env True ''journal.md'' preview_state)
        \<lparr>tagButtons := (tagButtons (fst (loadNotebook spec_env True ''journal.md'' preview_state)))
           [0 := (''work'', \<lparr>label = ''work'', flat = False, checkable = True, checked = True\<rparr>)]\<rparr>))))
       = [(''work'', ''work'', False, True), (''urgent'', ''urgent'', False, True),
          (''personal'', ''personal'', True, False)]
   \<and> buttons_match
        (remaining_tags (fst (addFilter spec_env True 0
        (fst (loadNotebook spec_env True ''journal.md'' preview_state)
        \<lparr>tagButtons := (tagButtons (fst (loadNotebook spec_env True ''journal.md'' preview_state)))
           [0 := (''work'', \<lparr>label = ''work'', flat = False, checkable = True, checked = True\<rparr>)]\<rparr>))))
        (tagButtons (fst (addFilter spec_env True 0
        (fst (loadNotebook spec_env True ''journal.md'' preview_state)
        \<lparr>tagButtons := (tagButtons (fst (loadNotebook spec_env True ''journal.md'' preview_state)))
           [0 := (''work'', \<lparr>label = ''work'', flat = False, checkable = True, checked = True\<rparr>)]\<rparr>))))
   \<and> snd (reload spec_env True (fst (loadNotebook spec_env True ''journal.md'' preview_state)))
       = Return ()
   \<and> buttons_match
        (remaining_tags (fst (reload spec_env True
           (fst (loadNotebook spec_env True ''journal.md'' preview_state)))))
        (tagButtons (fst (reload spec_env True
           (fst (loadNotebook spec_env True ''journal.md'' preview_state)))))"
proof -
  let ?loaded = "fst (loadNotebook spec_env True ''journal.md'' preview_state)"
  let ?sel = "?loaded\<lparr>tagButtons := (tagButtons ?loaded)
           [0 := (''work'', \<lparr>label = ''work'', flat = False, checkable = True, checked = True\<rparr>)]\<rparr>"
  have nf: "\<not> flat (snd (tagButtons ?sel ! 0))" by code_simp
  have ra: "snd (addFilter spec_env True 0 ?sel) = Return ()" by code_simp
  then have a: "addFilter spec_env True 0 ?sel = (fst (addFilter spec_env True 0 ?sel), Return ())"
    by (metis prod.collapse)
  have reloaded: "snd (reload spec_env True ?loaded) = Return ()" by code_simp
  then have r: "reload spec_env True ?loaded = (fst (reload spec_env True ?loaded), Return ())"
    by (metis prod.collapse)
  have rem: "remaining_tags (fst (addFilter spec_env True 0 ?sel)) = [(''work'', 1), (''urgent'', 1)]"
    by code_simp
  have bs: "map (\<lambda>(key, b). (key, label b, flat b, checkable b))
      (tagButtons (fst (addFilter spec_env True 0 ?sel)))
       = [(''work'', ''work'', False, True), (''urgent'', ''urgent'', False, True),
          (''personal'', ''personal'', True, False)]"
    by code_simp
  from tag_buttons_follow_remaining_tags [of ?sel 0 spec_env True
      "fst (addFilter spec_env True 0 ?sel)"] nf a
  have m1: "buttons_match (remaining_tags (fst (addFilter spec_env True 0 ?sel)))
      (tagButtons (fst (addFilter spec_env True 0 ?sel)))"
    by blast
  from tag_buttons_follow_remaining_tags [of ?loaded _ spec_env True _
      "fst (reload spec_env True ?loaded)"] r
  have m2: "buttons_match (remaining_tags (fst (reload spec_env True ?loaded)))
      (tagButtons (fst (reload spec_env True ?loaded)))"
    by blast
  show ?thesis
    by (intro conjI) (rule nf ra rem bs m1 reloaded m2)+
qed

end
